theory Spec2Isabelle
  imports Main "HOL-Library.Multiset"
begin

section \<open>Go integers\<close>

text \<open>
  Go's \<open>int\<close> is a 64-bit two's-complement integer on the platforms the examples target.
  Values are modelled as \<open>int\<close>; every arithmetic operation of the source is followed by
  \<open>wrap64\<close>, which reduces the mathematical result to the representable range.
\<close>

definition wrap64 :: "int \<Rightarrow> int" where
  "wrap64 i = (i + 2 ^ 63) mod 2 ^ 64 - 2 ^ 63"

section \<open>Integer stack (04\_basic\_data\_structures.go)\<close>

text \<open>
  \<^verbatim>\<open>type Stack struct { data []int }\<close>
\<close>

record Stack =
  data :: "int list"

text \<open>
  \<^verbatim>\<open>func (s *Stack) Push(x int) { s.data = append(s.data, x) }\<close>
\<close>

definition Push :: "Stack \<Rightarrow> int \<Rightarrow> Stack" where
  "Push s x = s\<lparr>data := data s @ [x]\<rparr>"

text \<open>
  \<^verbatim>\<open>
  func (s *Stack) Pop() (int, bool) {
      if len(s.data) == 0 { return 0, false }
      val := s.data[len(s.data)-1]
      s.data = s.data[:len(s.data)-1]
      return val, true
  }
  \<close>
  The method mutates the receiver, so the model returns the pair of results together with
  the stack after the call.
\<close>

definition Pop :: "Stack \<Rightarrow> (int \<times> bool) \<times> Stack" where
  "Pop s =
     (if length (data s) = 0 then ((0, False), s)
      else
        let val = data s ! (length (data s) - 1)
        in ((val, True), s\<lparr>data := take (length (data s) - 1) (data s)\<rparr>))"

section \<open>The net/http example (08\_web\_development/01\_net\_http/main.go)\<close>

text \<open>
  \<^verbatim>\<open>type User struct { ID int; Name string }\<close>
\<close>

record User =
  ID :: int
  Name :: string

text \<open>
  The package-level variables \<open>users\<close> and \<open>nextID\<close>. The mutex \<open>mu\<close> makes the
  block that reads and writes them atomic, and no other statement of the handler touches
  them, so one call of the handler is one transformation of this state.
\<close>

record server_state =
  users :: "User list"
  nextID :: int

definition initial_server_state :: server_state where
  "initial_server_state = \<lparr>users = [\<lparr>ID = 1, Name = ''Bob''\<rparr>], nextID = 2\<rparr>"

text \<open>
  What the handler reads from the request: the method, the value of
  \<open>r.Header.Get("Content-Type")\<close> (the empty string when the header is absent) and the body.
\<close>

record Request =
  Method :: string
  ContentType :: string
  Body :: string

text \<open>What the handler writes: status code, Content-Type header and body.\<close>

record Response =
  status :: nat
  content_type :: string
  body :: string

text \<open>
  \<open>http.Error(w, msg, code)\<close> sets a plain-text content type, writes the status code and
  prints the message followed by a newline.
\<close>

definition http_Error :: "string \<Rightarrow> nat \<Rightarrow> Response" where
  "http_Error msg code =
     \<lparr>status = code, content_type = ''text/plain; charset=utf-8'', body = msg @ [CHR 0x0A]\<rparr>"

definition StatusCreated :: nat where "StatusCreated = 201"
definition StatusBadRequest :: nat where "StatusBadRequest = 400"
definition StatusMethodNotAllowed :: nat where "StatusMethodNotAllowed = 405"
definition StatusUnsupportedMediaType :: nat where "StatusUnsupportedMediaType = 415"

text \<open>
  \<open>createUserHandler\<close>. The two calls into \<open>encoding/json\<close> are parameters:
  \<open>decode\<close> is \<open>json.NewDecoder(r.Body).Decode(&u)\<close> (\<open>None\<close> when it returns an
  error) and \<open>encode\<close> is \<open>json.NewEncoder(w).Encode(u)\<close> (\<open>None\<close> when it returns an
  error). When encoding fails the status line 201 has already been written, so the later
  \<open>http.Error\<close> cannot change the status; only its text reaches the body.
\<close>

definition createUserHandler ::
  "(string \<Rightarrow> User option) \<Rightarrow> (User \<Rightarrow> string option) \<Rightarrow> Request \<Rightarrow> server_state
     \<Rightarrow> Response \<times> server_state" where
  "createUserHandler decode encode r st =
     (if Method r \<noteq> ''POST'' then
        (http_Error ''Method not allowed'' StatusMethodNotAllowed, st)
      else if ContentType r \<noteq> ''application/json'' then
        (http_Error ''Content-Type must be application/json'' StatusUnsupportedMediaType, st)
      else
        case decode (Body r) of
          None \<Rightarrow> (http_Error ''Invalid JSON'' StatusBadRequest, st)
        | Some u0 \<Rightarrow>
            if Name u0 = [] then (http_Error ''Name is required'' StatusBadRequest, st)
            else
              let u = u0\<lparr>ID := nextID st\<rparr>;
                  st' = st\<lparr>nextID := wrap64 (nextID st + 1), users := users st @ [u]\<rparr>
              in case encode u of
                   Some js \<Rightarrow>
                     (\<lparr>status = StatusCreated, content_type = ''application/json'', body = js\<rparr>,
                      st')
                 | None \<Rightarrow>
                     (\<lparr>status = StatusCreated, content_type = ''application/json'',
                       body = body (http_Error ''Internal server error'' 500)\<rparr>, st'))"

section \<open>Properties of the stack\<close>

lemma Pop_Push: "Pop (Push s x) = ((x, True), s)"
  by (simp add: Pop_def Push_def Let_def)

lemma Pop_empty: "data s = [] \<Longrightarrow> Pop s = ((0, False), s)"
  by (simp add: Pop_def)

text \<open>
  C10. Popping right after \<open>Push x\<close> returns \<open>(x, true)\<close> and leaves the stack with the
  contents it had before the push; popping an empty stack returns \<open>(0, false)\<close> and leaves
  the stack empty and unchanged.
\<close>

theorem stack_push_pop_roundtrip:
  "Pop (Push s x) = ((x, True), s) \<and>
   (data s = [] \<longrightarrow> Pop s = ((0, False), s) \<and> data (snd (Pop s)) = [])"
  by (simp add: Pop_Push Pop_empty)

theorem stack_push_pop_roundtrip_witness:
  "Pop (Push \<lparr>data = [10, 20]\<rparr> 30) = ((30, True), \<lparr>data = [10, 20]\<rparr>) \<and>
   data \<lparr>data = []\<rparr> = ([] :: int list) \<and>
   Pop \<lparr>data = []\<rparr> = ((0, False), \<lparr>data = []\<rparr>)"
  using stack_push_pop_roundtrip [of "\<lparr>data = [10, 20]\<rparr>" 30]
    stack_push_pop_roundtrip [of "\<lparr>data = []\<rparr>" 0]
  by simp

section \<open>Properties of the user handler\<close>

text \<open>
  C9. A request that \<open>createUserHandler\<close> rejects (wrong method: 405, wrong content type:
  415, body that does not decode: 400, empty name: 400) gets that status, and \<open>users\<close> and
  \<open>nextID\<close> are the same after the call as before it.
\<close>

theorem createUserHandler_rejection_keeps_state:
  assumes "createUserHandler decode encode r st = (resp, st')"
  shows "(Method r \<noteq> ''POST'' \<longrightarrow> status resp = 405 \<and> st' = st) \<and>
         (Method r = ''POST'' \<and> ContentType r \<noteq> ''application/json'' \<longrightarrow>
            status resp = 415 \<and> st' = st) \<and>
         (Method r = ''POST'' \<and> ContentType r = ''application/json'' \<and>
            decode (Body r) = None \<longrightarrow> status resp = 400 \<and> st' = st) \<and>
         (Method r = ''POST'' \<and> ContentType r = ''application/json'' \<and>
            (\<exists>u. decode (Body r) = Some u \<and> Name u = []) \<longrightarrow> status resp = 400 \<and> st' = st) \<and>
         (status resp \<noteq> 201 \<longrightarrow> users st' = users st \<and> nextID st' = nextID st)"
  using assms
  by (auto simp add: createUserHandler_def http_Error_def Let_def StatusCreated_def
      StatusBadRequest_def StatusMethodNotAllowed_def StatusUnsupportedMediaType_def
      split: if_splits option.splits)

theorem createUserHandler_rejection_keeps_state_witness:
  "createUserHandler (\<lambda>b. Some \<lparr>ID = 0, Name = []\<rparr>) (\<lambda>u. Some (Name u))
     \<lparr>Method = ''POST'', ContentType = ''application/json'', Body = ''{}''\<rparr>
     initial_server_state
   = (http_Error ''Name is required'' 400, initial_server_state) \<and>
   status (http_Error ''Name is required'' 400) = 400 \<and>
   users initial_server_state = [\<lparr>ID = 1, Name = ''Bob''\<rparr>] \<and>
   nextID initial_server_state = 2"
proof -
  let ?dec = "\<lambda>b :: string. Some \<lparr>ID = 0, Name = []\<rparr>"
  let ?enc = "\<lambda>u :: User. Some (Name u)"
  let ?r = "\<lparr>Method = ''POST'', ContentType = ''application/json'', Body = ''{}''\<rparr>"
  have run: "createUserHandler ?dec ?enc ?r initial_server_state
               = (http_Error ''Name is required'' 400, initial_server_state)"
    by (simp add: createUserHandler_def StatusBadRequest_def)
  from createUserHandler_rejection_keeps_state [OF run]
  have "status (http_Error ''Name is required'' 400) = 400" by simp
  with run show ?thesis by (simp add: initial_server_state_def)
qed

end
